theory Spec2Isabelle
  imports Complex_Main "HOL-Library.Word"
begin

section \<open>Values, exceptions and the world\<close>

text \<open>
  The repository is MicroPython for a Pyboard: \<^verbatim>\<open>asincroAccel.py\<close> (two accelerometers
  read under \<^verbatim>\<open>uasyncio\<close> and fused), \<^verbatim>\<open>externalAccel.py\<close> (the MPU-6050 driver alone),
  \<^verbatim>\<open>internalAccel.py\<close> (the on-board accelerometer alone) and \<^verbatim>\<open>motorContol.py\<close>
  (a DRV8833 motor driver).

  Python numbers that reach the fusion arithmetic (ints from \<^verbatim>\<open>xyz()\<close>, floats elsewhere)
  are modelled as \<^typ>\<open>real\<close>: rounding of the binary floating-point format is not
  modelled. Exceptions are values; every function that can raise returns a sum.
\<close>

datatype exn = OSError string | KeyboardInterrupt | OtherException string

text \<open>
  The world is the console (the lines printed so far) and the hardware. The hardware
  state \<open>'hw\<close> is left open: the device objects handed to the functions are records of
  their methods, each a transition of the world (Python calls them by name on whatever
  object it is given).
\<close>

record 'hw world =
  console :: "string list"
  hw :: 'hw

type_synonym ('hw, 'a) io = "'hw world \<Rightarrow> (exn + 'a) \<times> 'hw world"

definition py_print :: "string \<Rightarrow> 'hw world \<Rightarrow> 'hw world" where
  "py_print s w = w\<lparr>console := console w @ [s]\<rparr>"

text \<open>Sequencing of calls that may raise, and \<^verbatim>\<open>try: ... except OSError as e: ...\<close>.\<close>

definition return_io :: "'a \<Rightarrow> ('hw, 'a) io" where
  "return_io a w = (Inr a, w)"

definition bind_io :: "('hw, 'a) io \<Rightarrow> ('a \<Rightarrow> ('hw, 'b) io) \<Rightarrow> ('hw, 'b) io" where
  "bind_io m f w = (case m w of (Inl e, w') \<Rightarrow> (Inl e, w') | (Inr a, w') \<Rightarrow> f a w')"

definition try_except_OSError :: "('hw, 'a) io \<Rightarrow> (string \<Rightarrow> ('hw, 'a) io) \<Rightarrow> ('hw, 'a) io" where
  "try_except_OSError m handler w =
     (case m w of
        (Inl (OSError e), w') \<Rightarrow> handler e w'
      | (Inl other, w') \<Rightarrow> (Inl other, w')
      | (Inr a, w') \<Rightarrow> (Inr a, w'))"

section \<open>The sample dictionaries\<close>

text \<open>
  \<^verbatim>\<open>{"accel_x": x, "accel_y": y, "accel_z": z, "units": units}\<close> is the internal sample,
  \<^verbatim>\<open>{"accel_x": .., "accel_y": .., "accel_z": .., "gyro_x": .., .., "temp_c": ..}\<close> the external
  one, \<^verbatim>\<open>{"norm_x": .., "norm_y": .., "norm_z": ..}\<close> the fused vector. The keys are fixed
  by the code that builds them, so each dictionary is a record; \<^verbatim>\<open>None\<close> is \<open>None\<close>.
\<close>

record accel_data =
  accel_x :: real
  accel_y :: real
  accel_z :: real

record int_data = accel_data +
  units :: string

record ext_data = accel_data +
  gyro_x :: real
  gyro_y :: real
  gyro_z :: real
  temp_c :: real

record fused_data =
  norm_x :: real
  norm_y :: real
  norm_z :: real

section \<open>The fusion step (asincroAccel.py, lines 99-100 and 123-147)\<close>

definition NORMALIZATION_RANGE_G :: real where
  "NORMALIZATION_RANGE_G = 2.0"

definition NORMALIZATION_RANGE_V1_RAW :: real where
  "NORMALIZATION_RANGE_V1_RAW = 32.0"

text \<open>
  Python's \<^verbatim>\<open>min(a, b)\<close> returns \<open>a\<close> unless \<open>b < a\<close>, and \<^verbatim>\<open>max(a, b)\<close> returns \<open>a\<close>
  unless \<open>b > a\<close>.
\<close>

definition py_min :: "real \<Rightarrow> real \<Rightarrow> real" where
  "py_min a b = (if b < a then b else a)"

definition py_max :: "real \<Rightarrow> real \<Rightarrow> real" where
  "py_max a b = (if b > a then b else a)"

text \<open>
  Steps 2 to 4 of \<^verbatim>\<open>get_averaged_accel_data_async\<close>, for two samples that are present:
  the internal divisor is chosen by the \<^verbatim>\<open>units\<close> string, the external one is fixed.
\<close>

definition normalize_average_clamp :: "int_data \<Rightarrow> ext_data \<Rightarrow> fused_data" where
  "normalize_average_clamp int_d ext_d =
     (let int_norm_factor =
            (if units int_d = ''g-force'' then NORMALIZATION_RANGE_G
             else NORMALIZATION_RANGE_V1_RAW);
          int_norm_x = accel_x int_d / int_norm_factor;
          int_norm_y = accel_y int_d / int_norm_factor;
          int_norm_z = accel_z int_d / int_norm_factor;
          ext_norm_x = accel_x ext_d / NORMALIZATION_RANGE_G;
          ext_norm_y = accel_y ext_d / NORMALIZATION_RANGE_G;
          ext_norm_z = accel_z ext_d / NORMALIZATION_RANGE_G;
          avg_x = py_max (-1.0) (py_min 1.0 ((int_norm_x + ext_norm_x) / 2.0));
          avg_y = py_max (-1.0) (py_min 1.0 ((int_norm_y + ext_norm_y) / 2.0));
          avg_z = py_max (-1.0) (py_min 1.0 ((int_norm_z + ext_norm_z) / 2.0))
      in \<lparr>norm_x = avg_x, norm_y = avg_y, norm_z = avg_z\<rparr>)"

text \<open>
  Lines 123-147 as a whole, the part of \<^verbatim>\<open>get_averaged_accel_data_async\<close> after the two
  reads have been joined (the spec's \<^verbatim>\<open>fuse\<close>): \<^verbatim>\<open>if not int_data or not ext_data\<close> prints
  and returns \<^verbatim>\<open>None\<close>; a sample dictionary is never empty, so it is falsy exactly when
  it is \<^verbatim>\<open>None\<close>. \<open>fuse\<close> is the value returned, \<open>fuse_io\<close> the value together with the
  world the step leaves (the line printed when a sample is absent).
\<close>

definition fuse :: "int_data option \<Rightarrow> ext_data option \<Rightarrow> fused_data option" where
  "fuse int_d ext_d =
     (case int_d of
        None \<Rightarrow> None
      | Some i \<Rightarrow> (case ext_d of None \<Rightarrow> None | Some e \<Rightarrow> Some (normalize_average_clamp i e)))"

definition fuse_io :: "int_data option \<Rightarrow> ext_data option \<Rightarrow> 'hw world \<Rightarrow> fused_data option \<times> 'hw world" where
  "fuse_io int_d ext_d w =
     (if int_d = None \<or> ext_d = None
      then (None, py_print ''Error reading one or more sensors.'' w)
      else (fuse int_d ext_d, w))"

text \<open>The clamp as the specification words it: \<^verbatim>\<open>max(-1.0, min(1.0, avg))\<close>.\<close>

definition clamp :: "real \<Rightarrow> real" where
  "clamp avg = max (-1) (min 1 avg)"

section \<open>The sensor adapters (asincroAccel.py, lines 8-76; externalAccel.py, lines 9-124)\<close>

text \<open>
  \<^verbatim>\<open>pyb.Accel\<close>: \<^verbatim>\<open>xyz()\<close> and \<^verbatim>\<open>filtered_xyz()\<close> are blocking reads that return a triple
  or raise.
\<close>

record 'hw accel =
  xyz :: "('hw, real \<times> real \<times> real) io"
  filtered_xyz :: "('hw, real \<times> real \<times> real) io"

text \<open>
  \<^verbatim>\<open>pyb.I2C\<close>: \<^verbatim>\<open>readfrom_mem_into(addr, memaddr, buf)\<close> fills the buffer with the bytes the
  device answers, or raises \<^verbatim>\<open>OSError\<close> on a bus fault. The method is given the length of
  the buffer and returns its new contents, as many bytes as the buffer holds.
\<close>

record 'hw i2c_bus =
  readfrom_mem_into :: "nat \<Rightarrow> nat \<Rightarrow> nat \<Rightarrow> ('hw, 8 word list) io"

text \<open>
  The \<^verbatim>\<open>MPU6050\<close> object. Its 14-byte \<^verbatim>\<open>_buffer\<close> is overwritten by every read before it
  is unpacked and is read nowhere else, so the model hands the bytes from the bus to
  \<^verbatim>\<open>struct.unpack\<close> directly.
\<close>

record 'hw mpu6050 =
  i2c :: "'hw i2c_bus"
  addr :: nat

definition DEFAULT_ADDR :: nat where
  "DEFAULT_ADDR = 0x68"

definition REG_ACCEL_X_H :: nat where
  "REG_ACCEL_X_H = 0x3B"

definition SCALE_ACCEL :: real where
  "SCALE_ACCEL = 16384.0"

definition SCALE_GYRO :: real where
  "SCALE_GYRO = 131.0"

text \<open>One \<^verbatim>\<open>h\<close> of the format \<^verbatim>\<open>">hhhhhhh"\<close>: a big-endian signed 16-bit integer.\<close>

definition int16_be :: "8 word \<Rightarrow> 8 word \<Rightarrow> int" where
  "int16_be high_byte low_byte = sint (word_cat high_byte low_byte :: 16 word)"

text \<open>
  \<^verbatim>\<open>struct.unpack(">hhhhhhh", buf)\<close>: seven values from exactly 14 bytes; any other length
  raises (an exception that is not an \<^verbatim>\<open>OSError\<close>).
\<close>

definition struct_unpack_7h :: "8 word list \<Rightarrow> exn + (int \<times> int \<times> int \<times> int \<times> int \<times> int \<times> int)" where
  "struct_unpack_7h buf =
     (if length buf = 14
      then Inr (int16_be (buf ! 0) (buf ! 1), int16_be (buf ! 2) (buf ! 3),
                int16_be (buf ! 4) (buf ! 5), int16_be (buf ! 6) (buf ! 7),
                int16_be (buf ! 8) (buf ! 9), int16_be (buf ! 10) (buf ! 11),
                int16_be (buf ! 12) (buf ! 13))
      else Inl (OtherException ''struct.unpack: buffer size''))"

text \<open>
  \<^verbatim>\<open>MPU6050.get_all_data_scaled\<close> is the same in \<^verbatim>\<open>asincroAccel.py\<close> (lines 26-45) and in
  \<^verbatim>\<open>externalAccel.py\<close> (lines 47-90) but for the text printed: the whole body is inside
  \<^verbatim>\<open>try\<close>, and the \<^verbatim>\<open>except OSError\<close> branch prints and returns seven zeros.
\<close>

definition get_all_data_scaled_printing ::
  "string \<Rightarrow> 'hw mpu6050 \<Rightarrow> ('hw, real \<times> real \<times> real \<times> real \<times> real \<times> real \<times> real) io" where
  "get_all_data_scaled_printing label self =
     try_except_OSError
       (bind_io (readfrom_mem_into (i2c self) (addr self) REG_ACCEL_X_H 14) (\<lambda>buffer.
        bind_io (\<lambda>w. (struct_unpack_7h buffer, w)) (\<lambda>(ax_r, ay_r, az_r, t_r, gx_r, gy_r, gz_r).
        return_io (real_of_int ax_r / SCALE_ACCEL, real_of_int ay_r / SCALE_ACCEL,
                   real_of_int az_r / SCALE_ACCEL, real_of_int t_r / 340.0 + 36.53,
                   real_of_int gx_r / SCALE_GYRO, real_of_int gy_r / SCALE_GYRO,
                   real_of_int gz_r / SCALE_GYRO))))
       (\<lambda>e w. (Inr (0, 0, 0, 0, 0, 0, 0), py_print (label @ e) w))"

definition get_all_data_scaled ::
  "'hw mpu6050 \<Rightarrow> ('hw, real \<times> real \<times> real \<times> real \<times> real \<times> real \<times> real) io" where
  "get_all_data_scaled = get_all_data_scaled_printing ''I2C Error: ''"

definition externalAccel_get_all_data_scaled ::
  "'hw mpu6050 \<Rightarrow> ('hw, real \<times> real \<times> real \<times> real \<times> real \<times> real \<times> real) io" where
  "externalAccel_get_all_data_scaled = get_all_data_scaled_printing ''I2C Error reading sensor: ''"

text \<open>
  \<^verbatim>\<open>externalAcelerometers\<close> (asincroAccel.py, lines 52-64): \<^verbatim>\<open>None\<close> for an absent device,
  else the seven values packed into the dictionary.
\<close>

definition externalAcelerometers :: "'hw mpu6050 option \<Rightarrow> ('hw, ext_data option) io" where
  "externalAcelerometers sensor_device =
     (case sensor_device of
        None \<Rightarrow> return_io None
      | Some dev \<Rightarrow>
          bind_io (get_all_data_scaled dev) (\<lambda>(ax, ay, az, temp, gx, gy, gz).
          return_io (Some \<lparr>accel_x = ax, accel_y = ay, accel_z = az,
                            gyro_x = gx, gyro_y = gy, gyro_z = gz, temp_c = temp\<rparr>)))"

text \<open>\<^verbatim>\<open>getInternalAccelerometerData\<close> (asincroAccel.py, lines 67-76).\<close>

definition getInternalAccelerometerData :: "'hw accel option \<Rightarrow> bool \<Rightarrow> ('hw, int_data option) io" where
  "getInternalAccelerometerData accel_obj has_filtered_method =
     (case accel_obj of
        None \<Rightarrow> return_io None
      | Some a \<Rightarrow>
          if has_filtered_method
          then bind_io (filtered_xyz a) (\<lambda>(x, y, z).
               return_io (Some \<lparr>accel_x = x, accel_y = y, accel_z = z, units = ''g-force''\<rparr>))
          else bind_io (xyz a) (\<lambda>(x, y, z).
               return_io (Some \<lparr>accel_x = x, accel_y = y, accel_z = z, units = ''raw''\<rparr>)))"

section \<open>Coroutines (asincroAccel.py, lines 83-147)\<close>

text \<open>
  A coroutine is run by the scheduler one segment at a time: from the world it is resumed
  in, to the world it leaves and what it did last. It returned a value, raised, or
  suspended itself with \<^verbatim>\<open>await uasyncio.sleep_ms(t)\<close>, handing the scheduler the rest of
  itself. A segment is never interrupted by another task: the scheduler is cooperative.
\<close>

datatype ('w, 'a) step =
    Returned 'a
  | Raised exn
  | Suspended nat "'w \<Rightarrow> ('w, 'a) step \<times> 'w"

type_synonym ('hw, 'a) coroutine = "'hw world \<Rightarrow> ('hw world, 'a) step \<times> 'hw world"

text \<open>\<^verbatim>\<open>get_internal_data_async\<close> and \<^verbatim>\<open>get_external_data_async\<close> (lines 83-94).\<close>

definition get_internal_data_async :: "'hw accel option \<Rightarrow> bool \<Rightarrow> ('hw, int_data option) coroutine" where
  "get_internal_data_async accel_obj has_filtered_method w =
     (case getInternalAccelerometerData accel_obj has_filtered_method w of
        (Inl e, w') \<Rightarrow> (Raised e, w')
      | (Inr data, w') \<Rightarrow> (Suspended 0 (\<lambda>w''. (Returned data, w'')), w'))"

definition get_external_data_async :: "'hw mpu6050 option \<Rightarrow> ('hw, ext_data option) coroutine" where
  "get_external_data_async sensor_device w =
     (case externalAcelerometers sensor_device w of
        (Inl e, w') \<Rightarrow> (Raised e, w')
      | (Inr data, w') \<Rightarrow> (Suspended 0 (\<lambda>w''. (Returned data, w'')), w'))"

text \<open>
  \<^verbatim>\<open>uasyncio.gather(a, b)\<close> is the runtime's, not the repository's. What the model takes
  from it: both coroutines become tasks, started in the order given once the awaiting
  task has suspended; the tasks then take turns, one segment each (the two wrappers
  suspend for the same time, 0 ms); when both have returned, the awaiting task is handed
  the pair of results; an exception raised by a task is raised in the awaiting task (the
  first task's first, when both raise in the same turn) and the other task's result is
  never requested. \<open>gather_steps\<close> joins what the two tasks did in their latest segments.
\<close>

primrec wait_second :: "'a \<Rightarrow> ('w, 'b) step \<Rightarrow> ('w, 'a \<times> 'b) step" where
  "wait_second a (Returned b) = Returned (a, b)"
| "wait_second a (Raised e) = Raised e"
| "wait_second a (Suspended t k) = Suspended t (\<lambda>w. map_prod (wait_second a) id (k w))"

primrec gather_steps :: "('w, 'a) step \<Rightarrow> ('w, 'b) step \<Rightarrow> ('w, 'a \<times> 'b) step" where
  "gather_steps (Returned a) = (\<lambda>s2. wait_second a s2)"
| "gather_steps (Raised e) = (\<lambda>s2. Raised e)"
| "gather_steps (Suspended t k1) = (\<lambda>s2.
     case s2 of
       Returned b \<Rightarrow>
         Suspended t (\<lambda>w. case map_prod gather_steps id (k1 w) of (g, w') \<Rightarrow> (g (Returned b), w'))
     | Raised e \<Rightarrow> Raised e
     | Suspended t2 k2 \<Rightarrow>
         Suspended (min t t2) (\<lambda>w.
           case map_prod gather_steps id (k1 w) of (g, w1) \<Rightarrow>
           case k2 w1 of (s2', w2) \<Rightarrow> (g s2', w2)))"

definition gather :: "('w \<Rightarrow> ('w, 'a) step \<times> 'w) \<Rightarrow> ('w \<Rightarrow> ('w, 'b) step \<times> 'w) \<Rightarrow> 'w \<Rightarrow> ('w, 'a \<times> 'b) step \<times> 'w" where
  "gather c1 c2 w =
     (Suspended 0 (\<lambda>w0. case c1 w0 of (s1, w1) \<Rightarrow> case c2 w1 of (s2, w2) \<Rightarrow> (gather_steps s1 s2, w2)), w)"

text \<open>
  \<^verbatim>\<open>r = await c\<close> followed by the rest of the caller: the caller is suspended whenever \<open>c\<close>
  is, and goes on, in the same segment, with what \<open>c\<close> returned or raised.
\<close>

primrec await_then ::
  "('w, 'a) step \<Rightarrow> (exn + 'a \<Rightarrow> 'w \<Rightarrow> ('w, 'b) step \<times> 'w) \<Rightarrow> 'w \<Rightarrow> ('w, 'b) step \<times> 'w" where
  "await_then (Returned a) = (\<lambda>rest w. rest (Inr a) w)"
| "await_then (Raised e) = (\<lambda>rest w. rest (Inl e) w)"
| "await_then (Suspended t k) = (\<lambda>rest w.
     (Suspended t (\<lambda>w'. case map_prod await_then id (k w') of (g, w'') \<Rightarrow> g rest w''), w))"

text \<open>
  \<^verbatim>\<open>get_averaged_accel_data_async\<close> (lines 103-147): the two wrappers are gathered inside
  \<^verbatim>\<open>try\<close>; \<^verbatim>\<open>except OSError\<close> prints and returns \<^verbatim>\<open>None\<close>; any other exception leaves the
  function; the pair of results goes through the fusion step.
\<close>

definition get_averaged_accel_data_async ::
  "'hw accel option \<Rightarrow> bool \<Rightarrow> 'hw mpu6050 option \<Rightarrow> ('hw, fused_data option) coroutine" where
  "get_averaged_accel_data_async internal_obj internal_has_filter external_obj w =
     (case gather (get_internal_data_async internal_obj internal_has_filter)
                  (get_external_data_async external_obj) w of
        (s, w') \<Rightarrow>
          await_then s (\<lambda>r w1.
            case r of
              Inl (OSError e) \<Rightarrow> (Returned None, py_print (''Sensor read error: '' @ e) w1)
            | Inl other \<Rightarrow> (Raised other, w1)
            | Inr (int_d, ext_d) \<Rightarrow>
                (case fuse_io int_d ext_d w1 of (fused, w2) \<Rightarrow> (Returned fused, w2))) w')"

text \<open>
  Driving one coroutine to its end with no other task in between, as
  \<^verbatim>\<open>uasyncio.run\<close> does for a lone task: every suspension is resumed at once.
\<close>

primrec run_until_complete :: "('w, 'a) step \<Rightarrow> 'w \<Rightarrow> (exn + 'a) \<times> 'w" where
  "run_until_complete (Returned a) = (\<lambda>w. (Inr a, w))"
| "run_until_complete (Raised e) = (\<lambda>w. (Inl e, w))"
| "run_until_complete (Suspended t k) =
     (\<lambda>w. case map_prod run_until_complete id (k w) of (r, w') \<Rightarrow> r w')"

definition run :: "('w \<Rightarrow> ('w, 'a) step \<times> 'w) \<Rightarrow> 'w \<Rightarrow> (exn + 'a) \<times> 'w" where
  "run c w = (case c w of (s, w') \<Rightarrow> run_until_complete s w')"

text \<open>How many times a coroutine driven that way hands control back before it ends.\<close>

primrec suspensions_from :: "('w, 'a) step \<Rightarrow> 'w \<Rightarrow> nat" where
  "suspensions_from (Returned a) = (\<lambda>w. 0)"
| "suspensions_from (Raised e) = (\<lambda>w. 0)"
| "suspensions_from (Suspended t k) =
     (\<lambda>w. case map_prod suspensions_from id (k w) of (n, w') \<Rightarrow> Suc (n w'))"

definition suspensions :: "('w \<Rightarrow> ('w, 'a) step \<times> 'w) \<Rightarrow> 'w \<Rightarrow> nat" where
  "suspensions c w = (case c w of (s, w') \<Rightarrow> suspensions_from s w')"

section \<open>The blinker and the end of the program (asincroAccel.py, lines 153-157 and 217-224)\<close>

text \<open>\<^verbatim>\<open>pyb.LED\<close>: \<^verbatim>\<open>toggle()\<close> changes the hardware.\<close>

record 'hw led =
  toggle :: "'hw world \<Rightarrow> 'hw world"

text \<open>
  \<^verbatim>\<open>blink_led\<close> never returns: it is \<^verbatim>\<open>while True\<close> around a body that toggles the LED and
  suspends for the period. The body is one turn of the loop; the task is its repetition.
\<close>

definition blink_led_body :: "'hw led \<Rightarrow> nat \<Rightarrow> ('hw, unit) coroutine" where
  "blink_led_body led_obj period_ms w =
     (Suspended period_ms (\<lambda>w'. (Returned (), w')), toggle led_obj w)"

text \<open>
  The last lines of the file: \<^verbatim>\<open>try: uasyncio.run(main())\<close>,
  \<^verbatim>\<open>except KeyboardInterrupt: print("Interrupted")\<close>, \<^verbatim>\<open>finally: print("Loop stopped.")\<close>.
  The argument is how \<^verbatim>\<open>uasyncio.run(main())\<close> ended, in the world it ended in; the result
  is how the program ends. Any other exception passes through \<^verbatim>\<open>finally\<close>.
\<close>

definition asincro_program_end :: "exn + unit \<Rightarrow> 'hw world \<Rightarrow> (exn + unit) \<times> 'hw world" where
  "asincro_program_end outcome w =
     (case outcome of
        Inl KeyboardInterrupt \<Rightarrow> (Inr (), py_print ''Loop stopped.'' (py_print ''Interrupted'' w))
      | Inl other \<Rightarrow> (Inl other, py_print ''Loop stopped.'' w)
      | Inr u \<Rightarrow> (Inr (), py_print ''Loop stopped.'' w))"

section \<open>The cooperative scheduler\<close>

text \<open>
  Modelled from the spec: the scheduler. The repository's files call the \<^verbatim>\<open>uasyncio\<close> event
  loop (\<^verbatim>\<open>uasyncio.run\<close>, \<^verbatim>\<open>create_task\<close>, \<^verbatim>\<open>sleep_ms\<close>) and do not contain it. Section 4.5 of
  the specification describes it: one thread, no preemption; a task is Ready or Suspended
  until a deadline; "the loop repeatedly selects the Ready task with the earliest
  registration order among those whose deadline has elapsed, runs it until it yields or
  completes, and re-evaluates"; a periodic task that returns "is immediately re-scheduled
  as Suspended-until(now + period)"; "all configured periodic tasks are Ready at time 0".

  The clock is simulated, in milliseconds. A run of a task occupies the thread for the
  task's blocking duration; when no task is ready the clock moves on to the earliest
  deadline. A task is Ready when its deadline is not after the clock. The list of tasks
  is in registration order.
\<close>

record periodic_task =
  task_name :: string
  period :: nat
  blocking :: nat
  deadline :: nat
  executed :: nat

record scheduler =
  now :: nat
  tasks :: "periodic_task list"

fun first_ready :: "nat \<Rightarrow> periodic_task list \<Rightarrow> nat option" where
  "first_ready t [] = None"
| "first_ready t (x # xs) =
     (if deadline x \<le> t then Some 0 else map_option Suc (first_ready t xs))"

fun earliest_deadline :: "periodic_task list \<Rightarrow> nat" where
  "earliest_deadline [] = 0"
| "earliest_deadline [x] = deadline x"
| "earliest_deadline (x # xs) = min (deadline x) (earliest_deadline xs)"

text \<open>
  A task started at \<open>t\<close> returns at \<open>t + blocking\<close> and is suspended until one period after
  that.
\<close>

definition run_task :: "nat \<Rightarrow> periodic_task \<Rightarrow> periodic_task" where
  "run_task t x = x\<lparr>deadline := t + blocking x + period x, executed := executed x + 1\<rparr>"

definition sched_step :: "scheduler \<Rightarrow> scheduler" where
  "sched_step s =
     (case first_ready (now s) (tasks s) of
        Some i \<Rightarrow>
          \<lparr>now = now s + blocking (tasks s ! i),
           tasks = (tasks s)[i := run_task (now s) (tasks s ! i)]\<rparr>
      | None \<Rightarrow> s\<lparr>now := earliest_deadline (tasks s)\<rparr>)"

text \<open>
  A simulated run up to a horizon: the loop goes on while the clock is before the
  horizon. The loop of the scheduler has no end of its own, so the simulation takes fuel
  and returns \<open>None\<close> when it runs out before the horizon is reached.
\<close>

fun simulate :: "nat \<Rightarrow> nat \<Rightarrow> scheduler \<Rightarrow> scheduler option" where
  "simulate 0 horizon s = None"
| "simulate (Suc fuel) horizon s =
     (if horizon \<le> now s then Some s else simulate fuel horizon (sched_step s))"

text \<open>
  The two periodic tasks of the design: the fusion cycle, which sleeps 200 ms between
  cycles (\<^verbatim>\<open>main\<close>, line 213) and blocks the thread for \<open>b\<close> ms in each, and the indicator
  toggle, which sleeps 500 ms between toggles (\<^verbatim>\<open>blink_led(led, 500)\<close>, line 195) and takes
  no time. Either may have been registered first.
\<close>

definition fusion_task :: "nat \<Rightarrow> periodic_task" where
  "fusion_task b =
     \<lparr>task_name = ''fusion'', period = 200, blocking = b, deadline = 0, executed = 0\<rparr>"

definition toggle_task :: periodic_task where
  "toggle_task =
     \<lparr>task_name = ''toggle'', period = 500, blocking = 0, deadline = 0, executed = 0\<rparr>"

definition fairness_scenario :: "bool \<Rightarrow> nat \<Rightarrow> scheduler" where
  "fairness_scenario toggle_registered_first b =
     \<lparr>now = 0,
      tasks = (if toggle_registered_first then [toggle_task, fusion_task b]
               else [fusion_task b, toggle_task])\<rparr>"

definition toggle_count :: "scheduler \<Rightarrow> nat" where
  "toggle_count s =
     sum_list (map executed (filter (\<lambda>x. task_name x = ''toggle'') (tasks s)))"

text \<open>
  What holds of the two tasks after \<open>m\<close> steps of the loop, whatever the blocking duration
  \<open>b\<close> (\<open>fair_inv\<close>): the toggle is overdue by at most one blocking duration, and then only
  with the fusion task suspended; its deadline after \<open>k\<close> runs is between \<open>500 k\<close> and
  \<open>(500 + b) k\<close>; its last run started before the horizon; and the deadlines have moved on
  by 100 ms for every step taken.
\<close>

definition fusion_at :: "nat \<Rightarrow> nat \<Rightarrow> nat \<Rightarrow> periodic_task" where
  "fusion_at b d c =
     \<lparr>task_name = ''fusion'', period = 200, blocking = b, deadline = d, executed = c\<rparr>"

definition toggle_at :: "nat \<Rightarrow> nat \<Rightarrow> periodic_task" where
  "toggle_at d k =
     \<lparr>task_name = ''toggle'', period = 500, blocking = 0, deadline = d, executed = k\<rparr>"

definition fair_bounds :: "nat \<Rightarrow> nat \<Rightarrow> nat \<Rightarrow> nat \<Rightarrow> nat \<Rightarrow> nat \<Rightarrow> bool" where
  "fair_bounds b m n dF dT k \<longleftrightarrow>
     (n \<le> dT \<or> (n \<le> dT + b \<and> n < dF)) \<and>
     500 * k \<le> dT \<and> dT \<le> k * (500 + b) \<and>
     dF \<le> n + 200 \<and> dT \<le> n + 500 \<and>
     (k = 0 \<or> 500 * (k - 1) < 10000) \<and>
     100 * (m + 1) \<le> dF + dT + (if dF \<le> n \<or> dT \<le> n then 100 else 0)"

definition fair_inv :: "bool \<Rightarrow> nat \<Rightarrow> nat \<Rightarrow> scheduler \<Rightarrow> bool" where
  "fair_inv tf b m s \<longleftrightarrow>
     (\<exists>n dF c dT k. fair_bounds b m n dF dT k \<and>
        s = \<lparr>now = n, tasks = (if tf then [toggle_at dT k, fusion_at b dF c]
                                 else [fusion_at b dF c, toggle_at dT k])\<rparr>)"

section \<open>The motor driver (motorContol.py)\<close>

text \<open>
  The two PWM channels of timer 2 are the hardware state of \<^verbatim>\<open>motorContol.py\<close>; both are
  set to 0 percent when the module is loaded. \<^verbatim>\<open>pulse_percent\<close> stores the duty cycle of
  one channel. Python integers are unbounded.
\<close>

record pwm =
  pwm_in1 :: int
  pwm_in2 :: int

definition pwm_init :: pwm where
  "pwm_init = \<lparr>pwm_in1 = 0, pwm_in2 = 0\<rparr>"

definition pwm_in1_pulse_percent :: "int \<Rightarrow> pwm \<Rightarrow> pwm" where
  "pwm_in1_pulse_percent v s = s\<lparr>pwm_in1 := v\<rparr>"

definition pwm_in2_pulse_percent :: "int \<Rightarrow> pwm \<Rightarrow> pwm" where
  "pwm_in2_pulse_percent v s = s\<lparr>pwm_in2 := v\<rparr>"

text \<open>The clamp at the head of \<^verbatim>\<open>motorControl\<close>: two successive \<^verbatim>\<open>if\<close> statements.\<close>

definition clamp_speed :: "int \<Rightarrow> int" where
  "clamp_speed speed =
     (let speed1 = (if speed < 0 then 0 else speed)
      in if speed1 > 100 then 100 else speed1)"

definition motorControl :: "int \<Rightarrow> int \<Rightarrow> pwm \<Rightarrow> pwm" where
  "motorControl speed direction s =
     (let speed' = clamp_speed speed
      in if direction = 1 then pwm_in2_pulse_percent 0 (pwm_in1_pulse_percent speed' s)
         else if direction = -1 then pwm_in2_pulse_percent speed' (pwm_in1_pulse_percent 0 s)
         else pwm_in2_pulse_percent 0 (pwm_in1_pulse_percent 0 s))"

text \<open>
  The same two writes, one at a time: a \<^verbatim>\<open>KeyboardInterrupt\<close> can arrive between them.
\<close>

definition motorControl_writes :: "int \<Rightarrow> int \<Rightarrow> (pwm \<Rightarrow> pwm) list" where
  "motorControl_writes speed direction =
     (let speed' = clamp_speed speed
      in if direction = 1 then [pwm_in1_pulse_percent speed', pwm_in2_pulse_percent 0]
         else if direction = -1 then [pwm_in1_pulse_percent 0, pwm_in2_pulse_percent speed']
         else [pwm_in1_pulse_percent 0, pwm_in2_pulse_percent 0])"

definition on_hw :: "('hw \<Rightarrow> 'hw) \<Rightarrow> 'hw world \<Rightarrow> 'hw world" where
  "on_hw f w = w\<lparr>hw := f (hw w)\<rparr>"

definition time_sleep :: "nat \<Rightarrow> 'hw world \<Rightarrow> 'hw world" where
  "time_sleep seconds w = w"

text \<open>
  The example loop (lines 67-94): one turn of \<^verbatim>\<open>while True\<close> as its steps in order, the
  world when the loop is entered, the world after \<open>n\<close> steps of the endless loop, and
  the \<^verbatim>\<open>except KeyboardInterrupt\<close> branch that ends the program.
\<close>

definition motor_loop_steps :: "(pwm world \<Rightarrow> pwm world) list" where
  "motor_loop_steps =
     [py_print ''Running Forward (60%)''] @ map on_hw (motorControl_writes 60 1) @ [time_sleep 2] @
     [py_print ''Stopping (Brake)''] @ map on_hw (motorControl_writes 0 0) @ [time_sleep 1] @
     [py_print ''Running Reverse (90%)''] @ map on_hw (motorControl_writes 90 (-1)) @ [time_sleep 2] @
     [py_print ''Stopping (Brake)''] @ map on_hw (motorControl_writes 0 0) @ [time_sleep 1]"

definition motor_world_init :: "pwm world" where
  "motor_world_init = \<lparr>console = [''Starting DRV8833 motor control test...''], hw = pwm_init\<rparr>"

fun motor_loop_run :: "nat \<Rightarrow> pwm world" where
  "motor_loop_run 0 = motor_world_init"
| "motor_loop_run (Suc n) = (motor_loop_steps ! (n mod length motor_loop_steps)) (motor_loop_run n)"

definition motor_on_KeyboardInterrupt :: "pwm world \<Rightarrow> pwm world" where
  "motor_on_KeyboardInterrupt w =
     py_print ''Done.'' (on_hw (motorControl 0 0) (py_print ''Stopping motor.'' w))"

definition motor_program_interrupted :: "nat \<Rightarrow> pwm world" where
  "motor_program_interrupted n = motor_on_KeyboardInterrupt (motor_loop_run n)"

section \<open>Devices and worlds for the worked instances\<close>

text \<open>
  An accelerometer that always reads the same triple, one whose reads raise; a bus that
  always fills the buffer with the same bytes (as many as the buffer holds, zeros past
  their end), one whose transactions raise; an LED whose state is the whole hardware;
  worlds with nothing printed yet.
\<close>

definition steady_accel :: "real \<times> real \<times> real \<Rightarrow> 'hw accel" where
  "steady_accel v = \<lparr>xyz = return_io v, filtered_xyz = return_io v\<rparr>"

definition failing_accel :: "exn \<Rightarrow> 'hw accel" where
  "failing_accel e = \<lparr>xyz = (\<lambda>w. (Inl e, w)), filtered_xyz = (\<lambda>w. (Inl e, w))\<rparr>"

definition steady_bus :: "8 word list \<Rightarrow> 'hw i2c_bus" where
  "steady_bus bytes =
     \<lparr>readfrom_mem_into = (\<lambda>a r n. return_io (take n bytes @ replicate (n - length bytes) 0))\<rparr>"

definition failing_bus :: "exn \<Rightarrow> 'hw i2c_bus" where
  "failing_bus e = \<lparr>readfrom_mem_into = (\<lambda>a r n w. (Inl e, w))\<rparr>"

definition mpu_on :: "'hw i2c_bus \<Rightarrow> 'hw mpu6050" where
  "mpu_on bus = \<lparr>i2c = bus, addr = DEFAULT_ADDR\<rparr>"

definition bool_led :: "bool led" where
  "bool_led = \<lparr>toggle = on_hw Not\<rparr>"

definition world0 :: "unit world" where
  "world0 = \<lparr>console = [], hw = ()\<rparr>"

definition led_off_world :: "bool world" where
  "led_off_world = \<lparr>console = [], hw = False\<rparr>"

section \<open>Properties of the fusion step\<close>

lemma py_min_eq_min: "py_min a b = min a b"
  by (simp add: py_min_def min_def)

lemma py_max_eq_max: "py_max a b = max a b"
  by (simp add: py_max_def max_def)

lemma py_clamp_eq_clamp: "py_max (-1) (py_min 1 v) = clamp v"
  by (simp add: py_min_eq_min py_max_eq_max clamp_def)

lemma clamp_bounds: "-1 \<le> clamp v \<and> clamp v \<le> 1"
  by (simp add: clamp_def)

lemma normalize_average_clamp_eq:
  "normalize_average_clamp i e =
     \<lparr>norm_x = clamp ((accel_x i / (if units i = ''g-force'' then 2 else 32) + accel_x e / 2) / 2),
      norm_y = clamp ((accel_y i / (if units i = ''g-force'' then 2 else 32) + accel_y e / 2) / 2),
      norm_z = clamp ((accel_z i / (if units i = ''g-force'' then 2 else 32) + accel_z e / 2) / 2)\<rparr>"
  by (simp add: normalize_average_clamp_def Let_def py_clamp_eq_clamp
      NORMALIZATION_RANGE_G_def NORMALIZATION_RANGE_V1_RAW_def)

lemma fst_fuse_io: "fst (fuse_io i e w) = fuse i e"
  by (simp add: fuse_io_def fuse_def split: option.splits)

lemma hw_fuse_io: "hw (snd (fuse_io i e w)) = hw w"
  by (simp add: fuse_io_def py_print_def)

text \<open>
  Claim C1. For every pair of present samples, whatever the axis values and whatever the
  units string, the fusion step returns a vector, and each of its components lies in the
  closed interval from -1 to 1.
\<close>

theorem fuse_components_in_range:
  "\<exists>f. fuse (Some i) (Some e) = Some f \<and>
       -1 \<le> norm_x f \<and> norm_x f \<le> 1 \<and>
       -1 \<le> norm_y f \<and> norm_y f \<le> 1 \<and>
       -1 \<le> norm_z f \<and> norm_z f \<le> 1"
  by (simp add: fuse_def normalize_average_clamp_eq clamp_bounds)

text \<open>
  Claim C2. Per axis the fused value is \<open>clamp ((i / d + e / 2) / 2)\<close>, with \<open>d = 2\<close> for an
  internal sample tagged \<^verbatim>\<open>g-force\<close> and \<open>d = 32\<close> for one tagged \<^verbatim>\<open>raw\<close>; the external
  sample carries no tag and is always divided by 2. Internal (4,0,0) in g-force with
  external (1,0,0) gives X = 1; internal (8,0,0) raw with external (0,0,0) gives
  X = 0.125.
\<close>

theorem fuse_formula:
  "fuse (Some \<lparr>accel_x = ix, accel_y = iy, accel_z = iz, units = ''g-force''\<rparr>) (Some e) =
     Some \<lparr>norm_x = clamp ((ix / 2 + accel_x e / 2) / 2),
           norm_y = clamp ((iy / 2 + accel_y e / 2) / 2),
           norm_z = clamp ((iz / 2 + accel_z e / 2) / 2)\<rparr> \<and>
   fuse (Some \<lparr>accel_x = ix, accel_y = iy, accel_z = iz, units = ''raw''\<rparr>) (Some e) =
     Some \<lparr>norm_x = clamp ((ix / 32 + accel_x e / 2) / 2),
           norm_y = clamp ((iy / 32 + accel_y e / 2) / 2),
           norm_z = clamp ((iz / 32 + accel_z e / 2) / 2)\<rparr> \<and>
   (\<exists>f. fuse (Some \<lparr>accel_x = 4, accel_y = 0, accel_z = 0, units = ''g-force''\<rparr>)
              (Some \<lparr>accel_x = 1, accel_y = 0, accel_z = 0,
                     gyro_x = gx, gyro_y = gy, gyro_z = gz, temp_c = t\<rparr>) = Some f \<and>
        norm_x f = 1) \<and>
   (\<exists>f. fuse (Some \<lparr>accel_x = 8, accel_y = 0, accel_z = 0, units = ''raw''\<rparr>)
              (Some \<lparr>accel_x = 0, accel_y = 0, accel_z = 0,
                     gyro_x = gx, gyro_y = gy, gyro_z = gz, temp_c = t\<rparr>) = Some f \<and>
        norm_x f = 0.125)"
  by (simp add: fuse_def normalize_average_clamp_eq clamp_def)

section \<open>Properties of the adapters, the wrappers and the fusion cycle\<close>

text \<open>
  The driver turns every \<^verbatim>\<open>OSError\<close> of the bus into seven zeros, so the external read
  never raises one: the \<^verbatim>\<open>except OSError\<close> around \<^verbatim>\<open>gather\<close> cannot be reached from the
  external sensor.
\<close>

lemma get_all_data_scaled_bus_fault:
  assumes "readfrom_mem_into (i2c self) (addr self) REG_ACCEL_X_H 14 w = (Inl (OSError m), w')"
  shows "get_all_data_scaled_printing label self w =
           (Inr (0, 0, 0, 0, 0, 0, 0), py_print (label @ m) w')"
  using assms by (simp add: get_all_data_scaled_printing_def try_except_OSError_def bind_io_def)

lemma external_never_OSError: "externalAcelerometers d w \<noteq> (Inl (OSError m), w')"
  by (auto simp: externalAcelerometers_def get_all_data_scaled_def get_all_data_scaled_printing_def try_except_OSError_def
      bind_io_def return_io_def struct_unpack_7h_def
      split: option.splits prod.splits sum.splits exn.splits if_splits)

text \<open>What one fusion cycle, run on its own, comes to, by what the two reads did.\<close>

lemma cycle_both_read:
  assumes "getInternalAccelerometerData a hf w = (Inr i, w1)"
      and "externalAcelerometers d w1 = (Inr e, w2)"
  shows "run (get_averaged_accel_data_async a hf d) w = (Inr (fuse i e), snd (fuse_io i e w2))"
  using assms fst_fuse_io [of i e w2]
  by (auto simp add: run_def get_averaged_accel_data_async_def gather_def
      get_internal_data_async_def get_external_data_async_def split: prod.splits)

lemma cycle_internal_raises:
  assumes "getInternalAccelerometerData a hf w = (Inl x, w1)"
  shows "run (get_averaged_accel_data_async a hf d) w =
           (case x of
              OSError m \<Rightarrow>
                (Inr None, py_print (''Sensor read error: '' @ m) (snd (externalAcelerometers d w1)))
            | _ \<Rightarrow> (Inl x, snd (externalAcelerometers d w1)))"
  using assms
  by (simp add: run_def get_averaged_accel_data_async_def gather_def
      get_internal_data_async_def get_external_data_async_def
      split: prod.splits sum.splits exn.splits)

lemma cycle_external_raises:
  assumes "getInternalAccelerometerData a hf w = (Inr i, w1)"
      and "externalAcelerometers d w1 = (Inl x, w2)"
  shows "run (get_averaged_accel_data_async a hf d) w = (Inl x, w2)"
  using assms external_never_OSError [of d w1 _ w2]
  by (auto simp add: run_def get_averaged_accel_data_async_def gather_def
      get_internal_data_async_def get_external_data_async_def
      split: prod.splits sum.splits exn.splits)

text \<open>What the join of the two read tasks, run on its own, comes to.\<close>

lemma join_internal_raises:
  assumes "getInternalAccelerometerData a hf w = (Inl x, w1)"
  shows "run (gather (get_internal_data_async a hf) (get_external_data_async d)) w =
           (Inl x, snd (externalAcelerometers d w1))"
  using assms
  by (simp add: run_def gather_def get_internal_data_async_def get_external_data_async_def
      split: prod.splits sum.splits)

lemma join_external_raises:
  assumes "getInternalAccelerometerData a hf w = (Inr i, w1)"
      and "externalAcelerometers d w1 = (Inl y, w2)"
  shows "run (gather (get_internal_data_async a hf) (get_external_data_async d)) w = (Inl y, w2)"
  using assms
  by (simp add: run_def gather_def get_internal_data_async_def get_external_data_async_def)

lemma join_both_read:
  assumes "getInternalAccelerometerData a hf w = (Inr i, w1)"
      and "externalAcelerometers d w1 = (Inr e, w2)"
  shows "run (gather (get_internal_data_async a hf) (get_external_data_async d)) w =
           (Inr (i, e), w2)"
  using assms
  by (simp add: run_def gather_def get_internal_data_async_def get_external_data_async_def)

text \<open>The reads of the devices of the worked instances.\<close>

lemma read_absent:
  "getInternalAccelerometerData None hf w = (Inr None, w)"
  "externalAcelerometers None w = (Inr None, w)"
  by (simp_all add: getInternalAccelerometerData_def externalAcelerometers_def return_io_def)

lemma read_steady_accel:
  "getInternalAccelerometerData (Some (steady_accel (x, y, z))) False w =
     (Inr (Some \<lparr>accel_x = x, accel_y = y, accel_z = z, units = ''raw''\<rparr>), w)"
  by (simp add: getInternalAccelerometerData_def steady_accel_def bind_io_def return_io_def)

lemma read_failing_accel:
  "getInternalAccelerometerData (Some (failing_accel e)) hf w = (Inl e, w)"
  by (simp add: getInternalAccelerometerData_def failing_accel_def bind_io_def)

lemma read_failing_bus:
  "externalAcelerometers (Some (mpu_on (failing_bus (OSError m)))) w =
     (Inr (Some \<lparr>accel_x = 0, accel_y = 0, accel_z = 0,
                 gyro_x = 0, gyro_y = 0, gyro_z = 0, temp_c = 0\<rparr>),
      py_print (''I2C Error: '' @ m) w)"
  by (simp add: externalAcelerometers_def get_all_data_scaled_def get_all_data_scaled_printing_def try_except_OSError_def
      bind_io_def return_io_def mpu_on_def failing_bus_def)

lemma read_zero_bus:
  "externalAcelerometers (Some (mpu_on (steady_bus (replicate 14 0)))) w =
     (Inr (Some \<lparr>accel_x = 0, accel_y = 0, accel_z = 0,
                 gyro_x = 0, gyro_y = 0, gyro_z = 0, temp_c = 36.53\<rparr>), w)"
  by (simp add: externalAcelerometers_def get_all_data_scaled_def get_all_data_scaled_printing_def try_except_OSError_def
      bind_io_def return_io_def mpu_on_def steady_bus_def struct_unpack_7h_def int16_be_def
      numeral_eq_Suc)

lemma read_raising_bus:
  "externalAcelerometers (Some (mpu_on (failing_bus (OtherException t)))) w =
     (Inl (OtherException t), w)"
  by (simp add: externalAcelerometers_def get_all_data_scaled_def get_all_data_scaled_printing_def try_except_OSError_def
      bind_io_def return_io_def mpu_on_def failing_bus_def)

text \<open>
  Claim C3. With either sample absent the fusion step returns \<^verbatim>\<open>None\<close>, whatever the other
  one is, and touches no hardware; a read through an absent handle returns \<^verbatim>\<open>None\<close>
  without raising and leaves the world as it was; a cycle with both handles absent
  returns \<^verbatim>\<open>None\<close>.
\<close>

theorem absence_gives_None:
  "fuse None x = None \<and> fuse y None = None \<and>
   fst (fuse_io None x w) = None \<and> fst (fuse_io y None w) = None \<and>
   hw (snd (fuse_io None x w)) = hw w \<and> hw (snd (fuse_io y None w)) = hw w \<and>
   externalAcelerometers None w = (Inr None, w) \<and>
   getInternalAccelerometerData None has_filtered_method w = (Inr None, w) \<and>
   fst (run (get_averaged_accel_data_async None has_filtered_method None) w) = Inr None"
  by (simp add: cycle_both_read [OF read_absent] read_absent hw_fuse_io fst_fuse_io)
     (simp add: fuse_def split: option.splits)

text \<open>
  Claim C4. The claim asks that a bus fault of the external read reach the caller as an
  error, so that no vector is fused in that cycle. The code does otherwise: on a bus
  whose transaction raises \<^verbatim>\<open>OSError\<close>, the driver (in both files) returns seven zeros,
  and the cycle returns the vector fused from the internal sample and a zero external
  sample, the same vector as with a sensor that truly reads zero.
\<close>

theorem bus_fault_fused_as_zero:
  "fst (get_all_data_scaled (mpu_on (failing_bus (OSError ''EIO''))) world0) =
     Inr (0, 0, 0, 0, 0, 0, 0) \<and>
   fst (externalAccel_get_all_data_scaled (mpu_on (failing_bus (OSError ''EIO''))) world0) =
     Inr (0, 0, 0, 0, 0, 0, 0) \<and>
   fst (run (get_averaged_accel_data_async (Some (steady_accel (0, 0, 16))) False
               (Some (mpu_on (failing_bus (OSError ''EIO''))))) world0) =
     Inr (Some \<lparr>norm_x = 0, norm_y = 0, norm_z = 0.25\<rparr>) \<and>
   fst (run (get_averaged_accel_data_async (Some (steady_accel (0, 0, 16))) False
               (Some (mpu_on (steady_bus (replicate 14 0))))) world0) =
     Inr (Some \<lparr>norm_x = 0, norm_y = 0, norm_z = 0.25\<rparr>)"
proof -
  have a: "fst (get_all_data_scaled (mpu_on (failing_bus (OSError ''EIO''))) world0) =
     Inr (0, 0, 0, 0, 0, 0, 0)"
    by (simp add: get_all_data_scaled_def get_all_data_scaled_bus_fault mpu_on_def failing_bus_def)
  have a': "fst (externalAccel_get_all_data_scaled (mpu_on (failing_bus (OSError ''EIO''))) world0) =
     Inr (0, 0, 0, 0, 0, 0, 0)"
    by (simp add: externalAccel_get_all_data_scaled_def get_all_data_scaled_bus_fault
        mpu_on_def failing_bus_def)
  have b: "fst (run (get_averaged_accel_data_async (Some (steady_accel (0, 0, 16))) False
               (Some (mpu_on (failing_bus (OSError ''EIO''))))) world0) =
     Inr (Some \<lparr>norm_x = 0, norm_y = 0, norm_z = 0.25\<rparr>)"
    by (simp add: cycle_both_read [OF read_steady_accel read_failing_bus]
        fuse_def normalize_average_clamp_eq clamp_def)
  have c: "fst (run (get_averaged_accel_data_async (Some (steady_accel (0, 0, 16))) False
               (Some (mpu_on (steady_bus (replicate 14 0))))) world0) =
     Inr (Some \<lparr>norm_x = 0, norm_y = 0, norm_z = 0.25\<rparr>)"
    by (simp add: cycle_both_read [OF read_steady_accel read_zero_bus]
        fuse_def normalize_average_clamp_eq clamp_def)
  from a a' b c show ?thesis by (intro conjI)
qed

text \<open>
  Claim C5, as the code has it. The claim wants the join to return, for a failed read
  task, an error that names the failed source. The join raises the task's own exception
  and nothing more: when the internal read raises \<^verbatim>\<open>MemoryError\<close> and the external read
  returns, and when the internal read returns and the external read raises
  \<^verbatim>\<open>MemoryError\<close>, the join ends in the same way, in the same world. Nothing in its
  outcome tells which of the two sources failed.
\<close>

theorem join_error_not_identified:
  "run (gather (get_internal_data_async
                  (Some (failing_accel (OtherException ''MemoryError''))) False)
               (get_external_data_async (Some (mpu_on (steady_bus (replicate 14 0))))))
       world0 =
     (Inl (OtherException ''MemoryError''), world0) \<and>
   run (gather (get_internal_data_async (Some (steady_accel (0, 0, 16))) False)
               (get_external_data_async
                  (Some (mpu_on (failing_bus (OtherException ''MemoryError''))))))
       world0 =
     (Inl (OtherException ''MemoryError''), world0)"
proof -
  have a: "run (gather (get_internal_data_async
                  (Some (failing_accel (OtherException ''MemoryError''))) False)
               (get_external_data_async (Some (mpu_on (steady_bus (replicate 14 0))))))
       world0 =
     (Inl (OtherException ''MemoryError''), world0)"
    by (simp add: join_internal_raises [OF read_failing_accel] read_zero_bus)
  have b: "run (gather (get_internal_data_async (Some (steady_accel (0, 0, 16))) False)
               (get_external_data_async
                  (Some (mpu_on (failing_bus (OtherException ''MemoryError''))))))
       world0 =
     (Inl (OtherException ''MemoryError''), world0)"
    by (rule join_external_raises [OF read_steady_accel read_raising_bus])
  from a b show ?thesis by (rule conjI)
qed

text \<open>
  Claim C5, amended. Both reads are made, the internal one first. If the internal read
  raised, the join raises the internal read's exception, whatever the external read did:
  its result, or its own exception, is lost. If the internal read returned and the
  external read raised, the join raises the external read's exception. If both returned,
  the join returns the two results as a pair. In each case the join ends in the world
  the external read left, and the exception is the one the read raised, with nothing
  added that names the source. Around the join the cycle turns an \<^verbatim>\<open>OSError\<close> into a
  printed line and the result \<^verbatim>\<open>None\<close>, lets any other exception pass, and hands a pair of
  results to the fusion step. (\<^verbatim>\<open>KeyboardInterrupt\<close> is left out: it is not an
  \<^verbatim>\<open>Exception\<close>, and the event loop does not hand it from a task to the task that awaits
  it.)
\<close>

theorem join_failure_anonymous:
  "(getInternalAccelerometerData a hf w = (Inl x, w1) \<and> x \<noteq> KeyboardInterrupt \<and>
    externalAcelerometers d w1 = (r, w2) \<longrightarrow>
      run (gather (get_internal_data_async a hf) (get_external_data_async d)) w = (Inl x, w2) \<and>
      run (get_averaged_accel_data_async a hf d) w =
        (case x of
           OSError m \<Rightarrow> (Inr None, py_print (''Sensor read error: '' @ m) w2)
         | _ \<Rightarrow> (Inl x, w2))) \<and>
   (getInternalAccelerometerData a hf w = (Inr i, w1) \<and>
    externalAcelerometers d w1 = (Inl y, w2) \<and> y \<noteq> KeyboardInterrupt \<longrightarrow>
      run (gather (get_internal_data_async a hf) (get_external_data_async d)) w = (Inl y, w2) \<and>
      run (get_averaged_accel_data_async a hf d) w = (Inl y, w2)) \<and>
   (getInternalAccelerometerData a hf w = (Inr i, w1) \<and>
    externalAcelerometers d w1 = (Inr e, w2) \<longrightarrow>
      run (gather (get_internal_data_async a hf) (get_external_data_async d)) w =
        (Inr (i, e), w2) \<and>
      run (get_averaged_accel_data_async a hf d) w = (Inr (fuse i e), snd (fuse_io i e w2)))"
proof (intro conjI impI)
  assume h: "getInternalAccelerometerData a hf w = (Inl x, w1) \<and> x \<noteq> KeyboardInterrupt \<and>
             externalAcelerometers d w1 = (r, w2)"
  then have i: "getInternalAccelerometerData a hf w = (Inl x, w1)"
    and e: "snd (externalAcelerometers d w1) = w2" by simp_all
  from join_internal_raises [OF i] e
  show "run (gather (get_internal_data_async a hf) (get_external_data_async d)) w = (Inl x, w2)"
    by simp
  from cycle_internal_raises [OF i, of d] e
  show "run (get_averaged_accel_data_async a hf d) w =
        (case x of
           OSError m \<Rightarrow> (Inr None, py_print (''Sensor read error: '' @ m) w2)
         | _ \<Rightarrow> (Inl x, w2))"
    by (simp split: exn.splits)
next
  assume h: "getInternalAccelerometerData a hf w = (Inr i, w1) \<and>
             externalAcelerometers d w1 = (Inl y, w2) \<and> y \<noteq> KeyboardInterrupt"
  then show "run (gather (get_internal_data_async a hf) (get_external_data_async d)) w =
               (Inl y, w2)"
    by (simp add: join_external_raises)
  from h show "run (get_averaged_accel_data_async a hf d) w = (Inl y, w2)"
    by (simp add: cycle_external_raises)
next
  assume h: "getInternalAccelerometerData a hf w = (Inr i, w1) \<and>
             externalAcelerometers d w1 = (Inr e, w2)"
  then show "run (gather (get_internal_data_async a hf) (get_external_data_async d)) w =
               (Inr (i, e), w2)"
    by (simp add: join_both_read)
  from h show "run (get_averaged_accel_data_async a hf d) w =
                 (Inr (fuse i e), snd (fuse_io i e w2))"
    by (simp add: cycle_both_read)
qed

theorem join_failure_anonymous_witness:
  "getInternalAccelerometerData (Some (failing_accel (OSError ''EIO''))) False world0 =
     (Inl (OSError ''EIO''), world0) \<and>
   OSError ''EIO'' \<noteq> KeyboardInterrupt \<and>
   externalAcelerometers (Some (mpu_on (failing_bus (OtherException ''MemoryError'')))) world0 =
     (Inl (OtherException ''MemoryError''), world0) \<and>
   run (gather (get_internal_data_async (Some (failing_accel (OSError ''EIO''))) False)
               (get_external_data_async
                  (Some (mpu_on (failing_bus (OtherException ''MemoryError'')))))) world0 =
     (Inl (OSError ''EIO''), world0) \<and>
   run (get_averaged_accel_data_async (Some (failing_accel (OSError ''EIO''))) False
          (Some (mpu_on (failing_bus (OtherException ''MemoryError''))))) world0 =
     (Inr None, py_print ''Sensor read error: EIO'' world0) \<and>
   getInternalAccelerometerData (Some (steady_accel (0, 0, 16))) False world0 =
     (Inr (Some \<lparr>accel_x = 0, accel_y = 0, accel_z = 16, units = ''raw''\<rparr>), world0) \<and>
   OtherException ''MemoryError'' \<noteq> KeyboardInterrupt \<and>
   run (gather (get_internal_data_async (Some (steady_accel (0, 0, 16))) False)
               (get_external_data_async
                  (Some (mpu_on (failing_bus (OtherException ''MemoryError'')))))) world0 =
     (Inl (OtherException ''MemoryError''), world0) \<and>
   run (get_averaged_accel_data_async (Some (steady_accel (0, 0, 16))) False
          (Some (mpu_on (failing_bus (OtherException ''MemoryError''))))) world0 =
     (Inl (OtherException ''MemoryError''), world0) \<and>
   externalAcelerometers (Some (mpu_on (steady_bus (replicate 14 0)))) world0 =
     (Inr (Some \<lparr>accel_x = 0, accel_y = 0, accel_z = 0,
                 gyro_x = 0, gyro_y = 0, gyro_z = 0, temp_c = 36.53\<rparr>), world0) \<and>
   run (gather (get_internal_data_async (Some (steady_accel (0, 0, 16))) False)
               (get_external_data_async (Some (mpu_on (steady_bus (replicate 14 0)))))) world0 =
     (Inr (Some \<lparr>accel_x = 0, accel_y = 0, accel_z = 16, units = ''raw''\<rparr>,
           Some \<lparr>accel_x = 0, accel_y = 0, accel_z = 0,
                 gyro_x = 0, gyro_y = 0, gyro_z = 0, temp_c = 36.53\<rparr>), world0) \<and>
   run (get_averaged_accel_data_async (Some (steady_accel (0, 0, 16))) False
          (Some (mpu_on (steady_bus (replicate 14 0))))) world0 =
     (Inr (Some \<lparr>norm_x = 0, norm_y = 0, norm_z = 0.25\<rparr>), world0)"
proof -
  let ?zeros = "Some (mpu_on (steady_bus (replicate 14 0))) :: unit mpu6050 option"
  let ?faulty =
    "Some (mpu_on (failing_bus (OtherException ''MemoryError''))) :: unit mpu6050 option"
  let ?i = "Some \<lparr>accel_x = 0, accel_y = 0, accel_z = 16, units = ''raw''\<rparr>"
  let ?e = "Some \<lparr>accel_x = 0, accel_y = 0, accel_z = 0,
                   gyro_x = 0, gyro_y = 0, gyro_z = 0, temp_c = 36.53\<rparr>"
  have h1: "getInternalAccelerometerData (Some (failing_accel (OSError ''EIO''))) False world0 =
     (Inl (OSError ''EIO''), world0)"
    by (rule read_failing_accel)
  have n1: "OSError ''EIO'' \<noteq> KeyboardInterrupt" by simp
  have h2: "externalAcelerometers ?faulty world0 = (Inl (OtherException ''MemoryError''), world0)"
    by (rule read_raising_bus)
  note c1 = join_failure_anonymous [THEN conjunct1, rule_format, OF conjI [OF h1 conjI [OF n1 h2]]]
  from c1 have c1a:
    "run (gather (get_internal_data_async (Some (failing_accel (OSError ''EIO''))) False)
                 (get_external_data_async ?faulty)) world0 = (Inl (OSError ''EIO''), world0)"
    by (rule conjunct1)
  from c1 have c1b:
    "run (get_averaged_accel_data_async (Some (failing_accel (OSError ''EIO''))) False
            ?faulty) world0 = (Inr None, py_print ''Sensor read error: EIO'' world0)"
    by simp
  have h3: "getInternalAccelerometerData (Some (steady_accel (0, 0, 16))) False world0 =
     (Inr ?i, world0)"
    by (rule read_steady_accel)
  have n2: "OtherException ''MemoryError'' \<noteq> KeyboardInterrupt" by simp
  note c2 = join_failure_anonymous [THEN conjunct2, THEN conjunct1, rule_format,
      OF conjI [OF h3 conjI [OF h2 n2]]]
  have h4: "externalAcelerometers ?zeros world0 = (Inr ?e, world0)"
    by (rule read_zero_bus)
  note c3 = join_failure_anonymous [THEN conjunct2, THEN conjunct2, rule_format,
      OF conjI [OF h3 h4]]
  from c3 have c3b:
    "run (get_averaged_accel_data_async (Some (steady_accel (0, 0, 16))) False ?zeros) world0 =
     (Inr (Some \<lparr>norm_x = 0, norm_y = 0, norm_z = 0.25\<rparr>), world0)"
    by (simp add: fuse_def fuse_io_def normalize_average_clamp_eq clamp_def)
  from h1 n1 h2 c1a c1b h3 n2 c2 [THEN conjunct1] c2 [THEN conjunct2] h4 c3 [THEN conjunct1] c3b
  show ?thesis by (intro conjI)
qed

text \<open>
  Claim C7, as the code has it. The claim is made for every wrapped read. A read may
  raise, and then the wrapper does not suspend at all: with an accelerometer whose read
  raises \<^verbatim>\<open>OSError\<close> the wrapper raises in its first segment, never hands control back to
  the scheduler, and completes with no value.
\<close>

theorem wrapper_of_raising_read_never_suspends:
  "getInternalAccelerometerData (Some (failing_accel (OSError ''EIO''))) False world0 =
     (Inl (OSError ''EIO''), world0) \<and>
   get_internal_data_async (Some (failing_accel (OSError ''EIO''))) False world0 =
     (Raised (OSError ''EIO''), world0) \<and>
   suspensions (get_internal_data_async (Some (failing_accel (OSError ''EIO''))) False) world0 = 0 \<and>
   run (get_internal_data_async (Some (failing_accel (OSError ''EIO''))) False) world0 =
     (Inl (OSError ''EIO''), world0)"
  by (simp add: read_failing_accel get_internal_data_async_def suspensions_def run_def)

text \<open>
  Claim C7, amended. A wrapper whose read returns runs the read in its first segment,
  before any suspension: the world it suspends in is the world the read left. It then
  suspends once, for 0 ms and with nothing handed over, and when resumed returns the
  value the read produced without touching the world again: one suspension in all, and
  the value and the world of the read at the end. A wrapper whose read raises, raises
  the same exception in its first segment, in the world the read left, and never
  suspends.
\<close>

theorem wrapper_yields_once:
  "(getInternalAccelerometerData accel_obj hf w = (Inr data, w') \<longrightarrow>
      (\<exists>k. get_internal_data_async accel_obj hf w = (Suspended 0 k, w') \<and>
           (\<forall>w''. k w'' = (Returned data, w''))) \<and>
      suspensions (get_internal_data_async accel_obj hf) w = 1 \<and>
      run (get_internal_data_async accel_obj hf) w = (Inr data, w')) \<and>
   (getInternalAccelerometerData accel_obj hf w = (Inl x, w') \<longrightarrow>
      get_internal_data_async accel_obj hf w = (Raised x, w') \<and>
      suspensions (get_internal_data_async accel_obj hf) w = 0 \<and>
      run (get_internal_data_async accel_obj hf) w = (Inl x, w')) \<and>
   (externalAcelerometers sensor_device w = (Inr data2, w') \<longrightarrow>
      (\<exists>k. get_external_data_async sensor_device w = (Suspended 0 k, w') \<and>
           (\<forall>w''. k w'' = (Returned data2, w''))) \<and>
      suspensions (get_external_data_async sensor_device) w = 1 \<and>
      run (get_external_data_async sensor_device) w = (Inr data2, w')) \<and>
   (externalAcelerometers sensor_device w = (Inl x, w') \<longrightarrow>
      get_external_data_async sensor_device w = (Raised x, w') \<and>
      suspensions (get_external_data_async sensor_device) w = 0 \<and>
      run (get_external_data_async sensor_device) w = (Inl x, w'))"
  by (simp add: get_internal_data_async_def get_external_data_async_def suspensions_def run_def)

theorem wrapper_yields_once_witness:
  "getInternalAccelerometerData (Some (steady_accel (8, 0, 0))) False world0 =
     (Inr (Some \<lparr>accel_x = 8, accel_y = 0, accel_z = 0, units = ''raw''\<rparr>), world0) \<and>
   (\<exists>k. get_internal_data_async (Some (steady_accel (8, 0, 0))) False world0 =
          (Suspended 0 k, world0) \<and>
        (\<forall>w''. k w'' =
          (Returned (Some \<lparr>accel_x = 8, accel_y = 0, accel_z = 0, units = ''raw''\<rparr>), w''))) \<and>
   suspensions (get_internal_data_async (Some (steady_accel (8, 0, 0))) False) world0 = 1 \<and>
   getInternalAccelerometerData (Some (failing_accel (OSError ''EIO''))) False world0 =
     (Inl (OSError ''EIO''), world0) \<and>
   get_internal_data_async (Some (failing_accel (OSError ''EIO''))) False world0 =
     (Raised (OSError ''EIO''), world0) \<and>
   suspensions (get_internal_data_async (Some (failing_accel (OSError ''EIO''))) False) world0 = 0 \<and>
   externalAcelerometers (Some (mpu_on (steady_bus (replicate 14 0)))) world0 =
     (Inr (Some \<lparr>accel_x = 0, accel_y = 0, accel_z = 0,
                 gyro_x = 0, gyro_y = 0, gyro_z = 0, temp_c = 36.53\<rparr>), world0) \<and>
   (\<exists>k. get_external_data_async (Some (mpu_on (steady_bus (replicate 14 0)))) world0 =
          (Suspended 0 k, world0) \<and>
        (\<forall>w''. k w'' =
          (Returned (Some \<lparr>accel_x = 0, accel_y = 0, accel_z = 0,
                           gyro_x = 0, gyro_y = 0, gyro_z = 0, temp_c = 36.53\<rparr>), w''))) \<and>
   suspensions (get_external_data_async (Some (mpu_on (steady_bus (replicate 14 0))))) world0 = 1 \<and>
   externalAcelerometers (Some (mpu_on (failing_bus (OtherException ''MemoryError'')))) world0 =
     (Inl (OtherException ''MemoryError''), world0) \<and>
   get_external_data_async (Some (mpu_on (failing_bus (OtherException ''MemoryError'')))) world0 =
     (Raised (OtherException ''MemoryError''), world0) \<and>
   suspensions (get_external_data_async
                  (Some (mpu_on (failing_bus (OtherException ''MemoryError''))))) world0 = 0"
proof -
  note h1 = read_steady_accel [of 8 0 0 world0]
  note h2 = read_failing_accel [of "OSError ''EIO''" False world0]
  note h3 = read_zero_bus [of world0]
  note h4 = read_raising_bus [of "''MemoryError''" world0]
  note c1 = wrapper_yields_once [THEN conjunct1, rule_format, OF h1]
  note c2 = wrapper_yields_once [THEN conjunct2, THEN conjunct1, rule_format, OF h2]
  note c3 = wrapper_yields_once [THEN conjunct2, THEN conjunct2, THEN conjunct1, rule_format, OF h3]
  note c4 = wrapper_yields_once [THEN conjunct2, THEN conjunct2, THEN conjunct2, rule_format, OF h4]
  from h1 c1 [THEN conjunct1] c1 [THEN conjunct2, THEN conjunct1]
       h2 c2 [THEN conjunct1] c2 [THEN conjunct2, THEN conjunct1]
       h3 c3 [THEN conjunct1] c3 [THEN conjunct2, THEN conjunct1]
       h4 c4 [THEN conjunct1] c4 [THEN conjunct2, THEN conjunct1]
  show ?thesis by (intro conjI)
qed

section \<open>Properties of the motor driver\<close>

lemma motorControl_by_writes:
  "motorControl speed direction s = foldl (\<lambda>s f. f s) s (motorControl_writes speed direction)"
  by (simp add: motorControl_def motorControl_writes_def Let_def)

lemma hw_motor_on_KeyboardInterrupt:
  "hw (motor_on_KeyboardInterrupt w) = \<lparr>pwm_in1 = 0, pwm_in2 = 0\<rparr>"
  by (simp add: motor_on_KeyboardInterrupt_def on_hw_def py_print_def motorControl_def
      clamp_speed_def pwm_in1_pulse_percent_def pwm_in2_pulse_percent_def)

text \<open>Three steps into the loop the motor runs forward at 60 percent.\<close>

lemma motor_running_after_three_steps:
  "hw (motor_loop_run 3) = \<lparr>pwm_in1 = 60, pwm_in2 = 0\<rparr>"
  by code_simp

text \<open>
  Claim C10. \<^verbatim>\<open>motorControl\<close> clamps the speed into 0..100 and leaves channel 1 at the
  clamped speed and channel 2 at 0 for direction 1, channel 2 at the clamped speed and
  channel 1 at 0 for direction -1, and both at 0 for any other direction; both duty
  cycles end within 0..100 and at most one of them is not 0.
\<close>

theorem motorControl_channels:
  "motorControl speed direction s =
     \<lparr>pwm_in1 = (if direction = 1 then clamp_speed speed else 0),
      pwm_in2 = (if direction = -1 then clamp_speed speed else 0)\<rparr> \<and>
   clamp_speed speed = max 0 (min 100 speed) \<and>
   0 \<le> pwm_in1 (motorControl speed direction s) \<and> pwm_in1 (motorControl speed direction s) \<le> 100 \<and>
   0 \<le> pwm_in2 (motorControl speed direction s) \<and> pwm_in2 (motorControl speed direction s) \<le> 100 \<and>
   (pwm_in1 (motorControl speed direction s) = 0 \<or> pwm_in2 (motorControl speed direction s) = 0)"
  by (simp add: motorControl_def clamp_speed_def pwm_in1_pulse_percent_def
      pwm_in2_pulse_percent_def Let_def)

section \<open>How the two programs end on an interrupt\<close>

text \<open>
  Claim C9, as the code has it. The claim wants every output driven to a safe state
  before the process leaves the scheduling loop. The fusion program does not do that:
  with the LED off at the start, the blinker's first turn lights it, and a
  \<^verbatim>\<open>KeyboardInterrupt\<close> arriving then ends the program with the LED still lit.
\<close>

theorem interrupt_leaves_led_lit:
  "hw led_off_world = False \<and>
   hw (snd (blink_led_body bool_led 500 led_off_world)) = True \<and>
   hw (snd (asincro_program_end (Inl KeyboardInterrupt)
              (snd (blink_led_body bool_led 500 led_off_world)))) = True"
  by (simp add: blink_led_body_def bool_led_def on_hw_def led_off_world_def
      asincro_program_end_def py_print_def)

text \<open>
  Claim C9, amended. On a \<^verbatim>\<open>KeyboardInterrupt\<close> the motor program sets both PWM channels
  to 0 before it ends, whatever state the interrupt found them in and however many steps
  of its loop had run; the fusion program catches the interrupt, prints, and ends with
  the hardware exactly as the interrupt found it.
\<close>

theorem interrupt_cleanup:
  "hw (motor_on_KeyboardInterrupt w) = \<lparr>pwm_in1 = 0, pwm_in2 = 0\<rparr> \<and>
   hw (motor_program_interrupted n) = \<lparr>pwm_in1 = 0, pwm_in2 = 0\<rparr> \<and>
   fst (asincro_program_end (Inl KeyboardInterrupt) v) = Inr () \<and>
   hw (snd (asincro_program_end (Inl KeyboardInterrupt) v)) = hw v"
  by (simp add: hw_motor_on_KeyboardInterrupt motor_program_interrupted_def
      asincro_program_end_def py_print_def)

section \<open>Fairness of the cooperative scheduler\<close>

lemma sched_step_two:
  "sched_step \<lparr>now = n, tasks = [a, b]\<rparr> =
     (if deadline a \<le> n then \<lparr>now = n + blocking a, tasks = [run_task n a, b]\<rparr>
      else if deadline b \<le> n then \<lparr>now = n + blocking b, tasks = [a, run_task n b]\<rparr>
      else \<lparr>now = min (deadline a) (deadline b), tasks = [a, b]\<rparr>)"
  by (simp add: sched_step_def)

lemma simulate_numeral:
  "simulate (numeral k) h s =
     (if h \<le> now s then Some s else simulate (pred_numeral k) h (sched_step s))"
  by (simp add: numeral_eq_Suc)

lemma simulate_one:
  "simulate 1 h s = (if h \<le> now s then Some s else None)"
  by (simp add: One_nat_def [symmetric] del: One_nat_def) (simp add: One_nat_def)

lemmas simulate_eval = simulate_numeral simulate_one sched_step_two run_task_def
  fairness_scenario_def fusion_task_def toggle_task_def toggle_count_def

lemma toggle_count_two:
  "toggle_count \<lparr>now = n, tasks = (if tf then [toggle_at dT k, fusion_at b dF c]
                                     else [fusion_at b dF c, toggle_at dT k])\<rparr> = k"
  by (simp add: toggle_count_def toggle_at_def fusion_at_def)

text \<open>
  What holds all along a run, whatever the blocking duration and the registration order.
\<close>

lemma fair_inv_init: "fair_inv tf b 0 (fairness_scenario tf b)"
  by (auto simp: fair_inv_def fairness_scenario_def fair_bounds_def fusion_at_def toggle_at_def
      fusion_task_def toggle_task_def)

lemma fair_bounds_toggle:
  assumes "fair_bounds b m n dF dT k" "n < 10000" "dT \<le> n"
  shows "fair_bounds b (Suc m) n dF (n + 500) (Suc k)"
proof -
  from assms(1) have
    a: "n \<le> dT \<or> (n \<le> dT + b \<and> n < dF)" and b1: "500 * k \<le> dT" and
    b2: "dT \<le> k * (500 + b)" and c: "dF \<le> n + 200" and
    p: "100 * (m + 1) \<le> dF + dT + (if dF \<le> n \<or> dT \<le> n then 100 else 0)"
    by (simp_all add: fair_bounds_def)
  from a have late: "n \<le> dT + b" by auto
  have 1: "500 * Suc k \<le> n + 500" using b1 assms(3) by simp
  have 2: "n + 500 \<le> Suc k * (500 + b)" using b2 late by simp
  have 3: "500 * (Suc k - 1) < 10000" using b1 assms(2,3) by simp
  have 4: "100 * (Suc m + 1) \<le> dF + (n + 500) + (if dF \<le> n \<or> n + 500 \<le> n then 100 else 0)"
    using p assms(3) by (simp split: if_splits)
  from 1 2 3 4 c show ?thesis by (simp add: fair_bounds_def)
qed

lemma fair_bounds_fusion:
  assumes "fair_bounds b m n dF dT k" "dF \<le> n" "n \<le> dT"
  shows "fair_bounds b (Suc m) (n + b) (n + b + 200) dT k"
  using assms by (auto simp: fair_bounds_def split: if_splits)

lemma fair_bounds_idle:
  assumes "fair_bounds b m n dF dT k" "\<not> dF \<le> n" "\<not> dT \<le> n"
  shows "fair_bounds b (Suc m) (min dF dT) dF dT k"
  using assms by (auto simp: fair_bounds_def min_def split: if_splits)

lemma fair_inv_step:
  assumes "fair_inv tf b m s" "now s < 10000"
  shows "fair_inv tf b (Suc m) (sched_step s)"
proof -
  from assms(1) obtain n dF c dT k where
    bnd: "fair_bounds b m n dF dT k" and
    s: "s = \<lparr>now = n, tasks = (if tf then [toggle_at dT k, fusion_at b dF c]
                                 else [fusion_at b dF c, toggle_at dT k])\<rparr>"
    by (auto simp: fair_inv_def)
  from assms(2) s have n: "n < 10000" by simp
  from bnd have wait: "n \<le> dT \<or> n < dF" by (auto simp: fair_bounds_def)
  show ?thesis
  proof (cases "dT \<le> n")
    case dT: True
    have nb: "fair_bounds b (Suc m) n dF (n + 500) (Suc k)"
      by (rule fair_bounds_toggle [OF bnd n dT])
    show ?thesis
    proof (cases "dF \<le> n")
      case dF: True
      with wait dT have eq: "dT = n" by simp
      from bnd dF eq have "fair_bounds b (Suc m) (n + b) (n + b + 200) dT k"
        by (intro fair_bounds_fusion) simp_all
      with nb s dT dF show ?thesis
        by (cases tf) (auto simp: fair_inv_def sched_step_two run_task_def toggle_at_def fusion_at_def)
    next
      case ndF: False
      with nb s dT show ?thesis
        by (cases tf) (auto simp: fair_inv_def sched_step_two run_task_def toggle_at_def fusion_at_def)
    qed
  next
    case ndT: False
    show ?thesis
    proof (cases "dF \<le> n")
      case dF: True
      from ndT have "n \<le> dT" by simp
      from fair_bounds_fusion [OF bnd dF this] s ndT dF show ?thesis
        by (cases tf) (auto simp: fair_inv_def sched_step_two run_task_def toggle_at_def fusion_at_def)
    next
      case ndF: False
      from fair_bounds_idle [OF bnd ndF ndT] s ndT ndF show ?thesis
        by (cases tf) (auto simp: fair_inv_def sched_step_two run_task_def toggle_at_def fusion_at_def
            min.commute)
    qed
  qed
qed

text \<open>Before the horizon at most 206 steps have been taken: the simulation ends.\<close>

lemma fair_inv_steps_bounded:
  assumes "fair_inv tf b m s" "now s < 10000"
  shows "m \<le> 206"
proof -
  from assms(1) obtain n dF c dT k where
    bnd: "fair_bounds b m n dF dT k" and
    s: "s = \<lparr>now = n, tasks = (if tf then [toggle_at dT k, fusion_at b dF c]
                                 else [fusion_at b dF c, toggle_at dT k])\<rparr>"
    by (auto simp: fair_inv_def)
  from assms(2) s have n: "n < 10000" by simp
  from bnd have "100 * (m + 1) \<le> dF + dT + 100" "dF \<le> n + 200" "dT \<le> n + 500"
    by (simp_all add: fair_bounds_def split: if_splits)
  with n show ?thesis by arith
qed

text \<open>
  At the horizon the toggle has run at most 20 times, and often enough for its cycles,
  of at most \<open>500 + b\<close> ms each, to cover the 10 seconds.
\<close>

lemma fair_inv_toggle_count:
  assumes "fair_inv tf b m s" "10000 \<le> now s"
  shows "toggle_count s \<le> 20 \<and> 10000 \<le> toggle_count s * (500 + b) + b"
proof -
  from assms(1) obtain n dF c dT k where
    bnd: "fair_bounds b m n dF dT k" and
    s: "s = \<lparr>now = n, tasks = (if tf then [toggle_at dT k, fusion_at b dF c]
                                 else [fusion_at b dF c, toggle_at dT k])\<rparr>"
    by (auto simp: fair_inv_def)
  from assms(2) s have n: "10000 \<le> n" by simp
  from bnd have a: "n \<le> dT + b" "dT \<le> k * (500 + b)" and c: "k = 0 \<or> 500 * (k - 1) < 10000"
    by (auto simp: fair_bounds_def)
  from a n have lo: "10000 \<le> k * (500 + b) + b" by linarith
  from c have hi: "k \<le> 20" by linarith
  from lo hi show ?thesis by (simp add: s toggle_count_two)
qed

lemma simulate_fair:
  "fair_inv tf b m s \<Longrightarrow> 208 \<le> fuel + m \<Longrightarrow> 0 < fuel \<Longrightarrow>
     \<exists>s'. simulate fuel 10000 s = Some s' \<and> 10000 \<le> now s' \<and> (\<exists>m'. fair_inv tf b m' s')"
proof (induction fuel arbitrary: m s)
  case 0
  then show ?case by simp
next
  case (Suc fuel)
  show ?case
  proof (cases "10000 \<le> now s")
    case True
    with Suc.prems(1) show ?thesis by auto
  next
    case False
    then have lt: "now s < 10000" by simp
    from fair_inv_steps_bounded [OF Suc.prems(1) lt] Suc.prems(2) have pos: "0 < fuel" by simp
    from fair_inv_step [OF Suc.prems(1) lt]
    have inv': "fair_inv tf b (Suc m) (sched_step s)" .
    from Suc.prems(2) have "208 \<le> fuel + Suc m" by simp
    from Suc.IH [OF inv' this pos]
    have "\<exists>s'. simulate fuel 10000 (sched_step s) = Some s' \<and> 10000 \<le> now s' \<and>
            (\<exists>m'. fair_inv tf b m' s')" .
    with False show ?thesis by simp
  qed
qed

lemma simulate_bounds:
  assumes "208 \<le> fuel"
  shows "\<exists>s. simulate fuel 10000 (fairness_scenario tf b) = Some s \<and> 10000 \<le> now s \<and>
             toggle_count s \<le> 20 \<and> 10000 \<le> toggle_count s * (500 + b) + b"
proof -
  from assms have f: "208 \<le> fuel + 0" "0 < fuel" by simp_all
  from simulate_fair [OF fair_inv_init f]
  obtain s m' where r: "simulate fuel 10000 (fairness_scenario tf b) = Some s"
    "10000 \<le> now s" "fair_inv tf b m' s" by blast
  from fair_inv_toggle_count [OF r(3) r(2)] r(1) r(2) show ?thesis by blast
qed

text \<open>A simulation that has ended ends in the same state with more fuel.\<close>

lemma simulate_more_fuel:
  "simulate fuel h s = Some s' \<Longrightarrow> fuel \<le> fuel' \<Longrightarrow> simulate fuel' h s = Some s'"
proof (induction fuel arbitrary: fuel' s)
  case 0
  then show ?case by simp
next
  case (Suc fuel)
  from Suc.prems(2) obtain f where f: "fuel' = Suc f" "fuel \<le> f" by (cases fuel') auto
  show ?case
  proof (cases "h \<le> now s")
    case True
    with Suc.prems(1) f show ?thesis by simp
  next
    case False
    with Suc.prems(1) have "simulate fuel h (sched_step s) = Some s'" by simp
    from Suc.IH [OF this f(2)] False f show ?thesis by simp
  qed
qed

text \<open>
  The count for blocking of at most 75 ms: up to 52 ms by the bound above, from 53 to
  75 ms by running the simulation, in each registration order.
\<close>

lemma short_blocking_count:
  assumes "b \<le> 52" "10000 \<le> k * (500 + b) + b"
  shows "19 \<le> (k :: nat)"
proof (rule ccontr)
  assume "\<not> 19 \<le> k"
  then have "k \<le> 18" by simp
  then have "k * (500 + b) \<le> 18 * (500 + b)" by (rule mult_le_mono1)
  with assms show False by simp
qed

lemma count_fusion_first_53_60:
  "map_option toggle_count (simulate 208 10000 (fairness_scenario False 53)) = Some 20"
  "map_option toggle_count (simulate 208 10000 (fairness_scenario False 54)) = Some 20"
  "map_option toggle_count (simulate 208 10000 (fairness_scenario False 55)) = Some 20"
  "map_option toggle_count (simulate 208 10000 (fairness_scenario False 56)) = Some 20"
  "map_option toggle_count (simulate 208 10000 (fairness_scenario False 57)) = Some 20"
  "map_option toggle_count (simulate 208 10000 (fairness_scenario False 58)) = Some 20"
  "map_option toggle_count (simulate 208 10000 (fairness_scenario False 59)) = Some 20"
  "map_option toggle_count (simulate 208 10000 (fairness_scenario False 60)) = Some 20"
  by (simp_all add: simulate_eval)

lemma count_fusion_first_61_68:
  "map_option toggle_count (simulate 208 10000 (fairness_scenario False 61)) = Some 20"
  "map_option toggle_count (simulate 208 10000 (fairness_scenario False 62)) = Some 19"
  "map_option toggle_count (simulate 208 10000 (fairness_scenario False 63)) = Some 19"
  "map_option toggle_count (simulate 208 10000 (fairness_scenario False 64)) = Some 19"
  "map_option toggle_count (simulate 208 10000 (fairness_scenario False 65)) = Some 19"
  "map_option toggle_count (simulate 208 10000 (fairness_scenario False 66)) = Some 19"
  "map_option toggle_count (simulate 208 10000 (fairness_scenario False 67)) = Some 19"
  "map_option toggle_count (simulate 208 10000 (fairness_scenario False 68)) = Some 19"
  by (simp_all add: simulate_eval)

lemma count_fusion_first_69_75:
  "map_option toggle_count (simulate 208 10000 (fairness_scenario False 69)) = Some 19"
  "map_option toggle_count (simulate 208 10000 (fairness_scenario False 70)) = Some 19"
  "map_option toggle_count (simulate 208 10000 (fairness_scenario False 71)) = Some 19"
  "map_option toggle_count (simulate 208 10000 (fairness_scenario False 72)) = Some 19"
  "map_option toggle_count (simulate 208 10000 (fairness_scenario False 73)) = Some 19"
  "map_option toggle_count (simulate 208 10000 (fairness_scenario False 74)) = Some 19"
  "map_option toggle_count (simulate 208 10000 (fairness_scenario False 75)) = Some 19"
  by (simp_all add: simulate_eval)

lemma count_toggle_first_53_60:
  "map_option toggle_count (simulate 208 10000 (fairness_scenario True 53)) = Some 20"
  "map_option toggle_count (simulate 208 10000 (fairness_scenario True 54)) = Some 20"
  "map_option toggle_count (simulate 208 10000 (fairness_scenario True 55)) = Some 20"
  "map_option toggle_count (simulate 208 10000 (fairness_scenario True 56)) = Some 20"
  "map_option toggle_count (simulate 208 10000 (fairness_scenario True 57)) = Some 20"
  "map_option toggle_count (simulate 208 10000 (fairness_scenario True 58)) = Some 20"
  "map_option toggle_count (simulate 208 10000 (fairness_scenario True 59)) = Some 20"
  "map_option toggle_count (simulate 208 10000 (fairness_scenario True 60)) = Some 20"
  by (simp_all add: simulate_eval)

lemma count_toggle_first_61_68:
  "map_option toggle_count (simulate 208 10000 (fairness_scenario True 61)) = Some 20"
  "map_option toggle_count (simulate 208 10000 (fairness_scenario True 62)) = Some 20"
  "map_option toggle_count (simulate 208 10000 (fairness_scenario True 63)) = Some 20"
  "map_option toggle_count (simulate 208 10000 (fairness_scenario True 64)) = Some 20"
  "map_option toggle_count (simulate 208 10000 (fairness_scenario True 65)) = Some 20"
  "map_option toggle_count (simulate 208 10000 (fairness_scenario True 66)) = Some 20"
  "map_option toggle_count (simulate 208 10000 (fairness_scenario True 67)) = Some 20"
  "map_option toggle_count (simulate 208 10000 (fairness_scenario True 68)) = Some 20"
  by (simp_all add: simulate_eval)

lemma count_toggle_first_69_75:
  "map_option toggle_count (simulate 208 10000 (fairness_scenario True 69)) = Some 19"
  "map_option toggle_count (simulate 208 10000 (fairness_scenario True 70)) = Some 19"
  "map_option toggle_count (simulate 208 10000 (fairness_scenario True 71)) = Some 19"
  "map_option toggle_count (simulate 208 10000 (fairness_scenario True 72)) = Some 19"
  "map_option toggle_count (simulate 208 10000 (fairness_scenario True 73)) = Some 19"
  "map_option toggle_count (simulate 208 10000 (fairness_scenario True 74)) = Some 19"
  "map_option toggle_count (simulate 208 10000 (fairness_scenario True 75)) = Some 19"
  by (simp_all add: simulate_eval)

lemma medium_blocking_count:
  assumes "52 < b" "b \<le> 75"
  shows "\<exists>s. simulate 208 10000 (fairness_scenario tf b) = Some s \<and> 19 \<le> toggle_count s"
proof -
  from assms have b:
   "b = 53 \<or> b = 54 \<or> b = 55 \<or> b = 56 \<or> b = 57 \<or> b = 58 \<or> b = 59
    \<or> b = 60 \<or> b = 61 \<or> b = 62 \<or> b = 63 \<or> b = 64 \<or> b = 65 \<or>
    b = 66 \<or> b = 67 \<or> b = 68 \<or> b = 69 \<or> b = 70 \<or> b = 71 \<or> b = 72
    \<or> b = 73 \<or> b = 74 \<or> b = 75"
    by arith
  have "\<exists>c. map_option toggle_count (simulate 208 10000 (fairness_scenario tf b)) = Some c \<and>
            19 \<le> c"
  proof (cases tf)
    case True
    with b show ?thesis
      by (elim disjE) (simp_all add: count_toggle_first_53_60 count_toggle_first_61_68 count_toggle_first_69_75)
  next
    case False
    with b show ?thesis
      by (elim disjE) (simp_all add: count_fusion_first_53_60 count_fusion_first_61_68 count_fusion_first_69_75)
  qed
  then show ?thesis by auto
qed

text \<open>
  Claim C8, as the scheduler has it. The claim does not hold for every blocking
  duration: the scheduler never preempts, so a toggle that falls due while the fusion
  task blocks waits. With 76 ms of blocking in every fusion cycle and the fusion task
  registered first, a simulated 10-second run executes the toggle 18 times; with 400 ms,
  16 times when the fusion task was registered first and 17 times when the toggle was.
\<close>

theorem toggle_starved_by_long_blocking:
  "map_option toggle_count (simulate 208 10000 (fairness_scenario False 76)) = Some 18 \<and>
   map_option toggle_count (simulate 208 10000 (fairness_scenario False 400)) = Some 16 \<and>
   map_option toggle_count (simulate 208 10000 (fairness_scenario True 400)) = Some 17"
  by (simp add: simulate_eval)

text \<open>
  Claim C8, amended. With a toggle task of period 500 ms and a fusion task of period
  200 ms that blocks \<open>b\<close> ms in each cycle, whichever was registered first, a simulated
  10-second run comes to its end (208 steps of the loop are enough) with the toggle
  executed \<open>k\<close> times, where \<open>k\<close> is at most 20 and \<open>k (500 + b) + b\<close> is at least 10000:
  every cycle of the toggle takes at most \<open>500 + b\<close> ms, so the toggle is not starved. When
  \<open>b\<close> is at most 75 ms, \<open>k\<close> is 19 or 20.
\<close>

theorem toggle_fairness_bounded_blocking:
  "(208 \<le> fuel \<longrightarrow>
     (\<exists>s. simulate fuel 10000 (fairness_scenario tf b) = Some s \<and> 10000 \<le> now s \<and>
          toggle_count s \<le> 20 \<and> 10000 \<le> toggle_count s * (500 + b) + b)) \<and>
   (208 \<le> fuel \<and> b \<le> 75 \<longrightarrow>
     (\<exists>s. simulate fuel 10000 (fairness_scenario tf b) = Some s \<and> 10000 \<le> now s \<and>
          19 \<le> toggle_count s \<and> toggle_count s \<le> 20))"
proof (intro conjI impI)
  assume "208 \<le> fuel"
  then show "\<exists>s. simulate fuel 10000 (fairness_scenario tf b) = Some s \<and> 10000 \<le> now s \<and>
               toggle_count s \<le> 20 \<and> 10000 \<le> toggle_count s * (500 + b) + b"
    by (rule simulate_bounds)
next
  assume h: "208 \<le> fuel \<and> b \<le> 75"
  from simulate_bounds [OF conjunct1 [OF h], of tf b]
  obtain s where r: "simulate fuel 10000 (fairness_scenario tf b) = Some s" "10000 \<le> now s"
    "toggle_count s \<le> 20" "10000 \<le> toggle_count s * (500 + b) + b" by blast
  have "19 \<le> toggle_count s"
  proof (cases "b \<le> 52")
    case True
    from short_blocking_count [OF True r(4)] show ?thesis .
  next
    case False
    with h have "52 < b" "b \<le> 75" by simp_all
    from medium_blocking_count [OF this, of tf]
    obtain s0 where s0: "simulate 208 10000 (fairness_scenario tf b) = Some s0"
      "19 \<le> toggle_count s0" by blast
    from simulate_more_fuel [OF s0(1) conjunct1 [OF h]] r(1) have "s = s0" by simp
    with s0(2) show ?thesis by simp
  qed
  with r show "\<exists>s. simulate fuel 10000 (fairness_scenario tf b) = Some s \<and> 10000 \<le> now s \<and>
                 19 \<le> toggle_count s \<and> toggle_count s \<le> 20"
    by blast
qed

theorem toggle_fairness_bounded_blocking_witness:
  "(208 :: nat) \<le> 208 \<and>
   (\<exists>s. simulate 208 10000 (fairness_scenario False 400) = Some s \<and> 10000 \<le> now s \<and>
        toggle_count s \<le> 20 \<and> 10000 \<le> toggle_count s * (500 + 400) + 400) \<and>
   (75 :: nat) \<le> 75 \<and>
   (\<exists>s. simulate 208 10000 (fairness_scenario False 75) = Some s \<and> 10000 \<le> now s \<and>
        19 \<le> toggle_count s \<and> toggle_count s \<le> 20)"
proof -
  have f: "(208 :: nat) \<le> 208" and b: "(75 :: nat) \<le> 75" by simp_all
  note c1 = toggle_fairness_bounded_blocking [of 208 False 400, THEN conjunct1, THEN mp, OF f]
  note c2 = toggle_fairness_bounded_blocking [of 208 False 75, THEN conjunct2, THEN mp,
      OF conjI [OF f b]]
  from f c1 b c2 show ?thesis by (intro conjI)
qed

text \<open>At 50 ms of blocking the count is 20, in either registration order.\<close>

lemma toggle_count_at_50:
  "map_option toggle_count (simulate 208 10000 (fairness_scenario False 50)) = Some 20"
  "map_option toggle_count (simulate 208 10000 (fairness_scenario True 50)) = Some 20"
  by (simp_all add: simulate_eval)

end
